theory Spec2Isabelle
  imports Main "HOL-Library.Word"
begin

section \<open>The asynchronous log exporter (exporter/asyncexporter/exporter.go)\<close>

text \<open>
  The exporter is a Go struct that is shared by producer goroutines, a pool of worker
  goroutines and one reconnector goroutine. It is embedded as a record that is passed
  through every operation. An operation is one sequential run of the Go function from a
  given state; what the environment decides (the result of a dial, the reply of the
  collector, which case of a \<open>select\<close> fires first) is an explicit argument.
  A run ends in one of three ways: it returns, it panics, or it parks the goroutine.
\<close>

subsection \<open>gRPC status and errors\<close>

text \<open>The status codes of \<open>google.golang.org/grpc/codes\<close>, in numeric order.\<close>

datatype code =
    OK | Canceled | Unknown | InvalidArgument | DeadlineExceeded | NotFound
  | AlreadyExists | PermissionDenied | ResourceExhausted | FailedPrecondition
  | Aborted | OutOfRange | Unimplemented | Internal | Unavailable | DataLoss
  | Unauthenticated

text \<open>\<open>time.Duration\<close>: a signed count of nanoseconds.\<close>

type_synonym duration = int

text \<open>
  A detail attached to a status. \<open>RetryInfo d\<close> is an \<open>errdetails.RetryInfo\<close> message whose
  \<open>RetryDelay.AsDuration()\<close> is \<open>d\<close>; every other detail message is \<open>OtherDetail\<close>.
\<close>

datatype detail = RetryInfo duration | OtherDetail string

record status =
  code :: code
  message :: string
  details :: "detail list"

text \<open>
  The error values of the package (\<open>errAlreadyStarted\<close> ... \<open>errContextCanceled\<close>), an error
  that carries a gRPC status, the two errors of package \<open>context\<close>, and any other error
  (a failed dial, a failed close) with its text. A Go \<open>error\<close> that may be \<open>nil\<close> is an
  \<open>error option\<close>.
\<close>

datatype error =
    errAlreadyStarted | errNotStarted | errDisconnected | errStopped | errContextCanceled
  | StatusError status
  | ctxDeadlineExceeded | ctxCanceled
  | OtherError string

text \<open>
  \<open>status.Convert\<close>: \<open>nil\<close> has code \<open>OK\<close>, a status error gives its status, any other
  error is \<open>Unknown\<close> with the error text as message.
\<close>

fun error_text :: "error \<Rightarrow> string" where
  "error_text errAlreadyStarted = ''already started''"
| "error_text errNotStarted = ''not started''"
| "error_text errDisconnected = ''exporter disconnected''"
| "error_text errStopped = ''exporter stopped''"
| "error_text errContextCanceled = ''context canceled''"
| "error_text (StatusError s) = message s"
| "error_text ctxDeadlineExceeded = ''context deadline exceeded''"
| "error_text ctxCanceled = ''context canceled''"
| "error_text (OtherError m) = m"

fun status_Convert :: "error option \<Rightarrow> status" where
  "status_Convert None = \<lparr>code = OK, message = [], details = []\<rparr>"
| "status_Convert (Some (StatusError s)) = s"
| "status_Convert (Some e) = \<lparr>code = Unknown, message = error_text e, details = []\<rparr>"

subsection \<open>The retry classifier\<close>

text \<open>The loop of \<open>throttleDelay\<close> over \<open>s.Details()\<close>: the first \<open>RetryInfo\<close> wins.\<close>

fun throttleDelay_loop :: "detail list \<Rightarrow> duration" where
  "throttleDelay_loop [] = 0"
| "throttleDelay_loop (RetryInfo d # ds) = d"
| "throttleDelay_loop (OtherDetail x # ds) = throttleDelay_loop ds"

definition throttleDelay :: "status \<Rightarrow> duration" where
  "throttleDelay s = throttleDelay_loop (details s)"

definition retryable :: "error option \<Rightarrow> bool \<times> duration" where
  "retryable err =
     (let s = status_Convert err in
      case code s of
        Canceled \<Rightarrow> (True, throttleDelay s)
      | DeadlineExceeded \<Rightarrow> (True, throttleDelay s)
      | ResourceExhausted \<Rightarrow> (True, throttleDelay s)
      | Aborted \<Rightarrow> (True, throttleDelay s)
      | OutOfRange \<Rightarrow> (True, throttleDelay s)
      | Unavailable \<Rightarrow> (True, throttleDelay s)
      | DataLoss \<Rightarrow> (True, throttleDelay s)
      | _ \<Rightarrow> (False, 0))"

text \<open>The codes the specification lists as transient.\<close>

definition transient_codes :: "code set" where
  "transient_codes =
     {Canceled, DeadlineExceeded, ResourceExhausted, Aborted, OutOfRange, Unavailable, DataLoss}"

text \<open>Whether a detail is a retry-after hint, and the hint it carries.\<close>

fun is_RetryInfo :: "detail \<Rightarrow> bool" where
  "is_RetryInfo (RetryInfo d) = True"
| "is_RetryInfo (OtherDetail x) = False"

fun attached_delay :: "detail list \<Rightarrow> duration option" where
  "attached_delay ds =
     (case filter is_RetryInfo ds of
        RetryInfo d # rest \<Rightarrow> Some d
      | _ \<Rightarrow> None)"

subsection \<open>Channels\<close>

text \<open>
  A Go channel: its buffer (oldest element first), its capacity and whether it was closed.
  A channel variable that may be \<open>nil\<close> is a \<open>chan option\<close>. A send completes when the
  buffer has room. While a receiver waits the buffer is empty, and Go hands the element
  over directly; here the element goes through the buffer, from which the receiver's own
  step takes it. A send on a channel without buffer parks: the operations below send on
  such a channel only when it is the intake of an exporter with concurrency 0, which has
  no receiver.
\<close>

record 'a chan =
  chan_buf :: "'a list"
  chan_cap :: nat
  chan_closed :: bool

definition make_chan :: "nat \<Rightarrow> 'a chan" where
  "make_chan n = \<lparr>chan_buf = [], chan_cap = n, chan_closed = False\<rparr>"

text \<open>
  \<open>ch <- v\<close>: on a \<open>nil\<close> channel the sender parks forever, on a closed channel the
  runtime panics, on a full buffer the sender parks until a receiver makes room.
\<close>

datatype 'a send_result = Sent "'a chan" | SendBlocks | SendPanics

fun chan_send :: "'a chan option \<Rightarrow> 'a \<Rightarrow> 'a send_result" where
  "chan_send None v = SendBlocks"
| "chan_send (Some ch) v =
     (if chan_closed ch then SendPanics
      else if length (chan_buf ch) < chan_cap ch
      then Sent (ch\<lparr>chan_buf := chan_buf ch @ [v]\<rparr>)
      else SendBlocks)"

text \<open>\<open>close(ch)\<close> panics on a \<open>nil\<close> channel and on a channel that is closed already.\<close>

datatype 'a close_result = Closed "'a chan" | ClosePanics string

fun chan_close :: "'a chan option \<Rightarrow> 'a close_result" where
  "chan_close None = ClosePanics ''close of nil channel''"
| "chan_close (Some ch) =
     (if chan_closed ch then ClosePanics ''close of closed channel''
      else Closed (ch\<lparr>chan_closed := True\<rparr>))"

text \<open>
  Nothing is ever sent on \<open>stopCh\<close>: a receive from it is ready exactly when it is closed.
\<close>

fun recv_ready_closed :: "'a chan option \<Rightarrow> bool" where
  "recv_ready_closed None = False"
| "recv_ready_closed (Some ch) = chan_closed ch"

text \<open>
  The value of a panic. The messages are those of the Go runtime: \<open>Error()\<close> of the panic
  raised by a send on a closed channel, by a nil pointer dereference and by \<open>make\<close> of a
  channel with a negative size.
\<close>

datatype panic_value = RuntimeError string | OtherPanic string

definition go_send_on_closed :: string where
  "go_send_on_closed = ''send on closed channel''"

definition go_nil_deref :: string where
  "go_nil_deref = ''runtime error: invalid memory address or nil pointer dereference''"

definition go_makechan_size :: string where
  "go_makechan_size = ''makechan: size out of range''"

subsection \<open>The exporter\<close>

text \<open>
  A \<open>*logsproto.ResourceLogs\<close> and a \<open>*grpc.ClientConn\<close> are opaque to the exporter: each is
  the identity of the object. A batch is a slice of record pointers.
\<close>

type_synonym resource_logs = nat
type_synonym batch = "resource_logs list"
type_synonym conn = nat

text \<open>
  \<open>sync.Pool\<close>: whether \<open>New\<close> is set, and the slices that were put back. \<open>Get\<close> hands out a
  stored slice when there is one, otherwise the result of \<open>New\<close> (an empty slice with
  capacity \<open>MaxExportBatchSize\<close>), otherwise \<open>nil\<close>.
\<close>

record pool =
  pool_New :: bool
  pool_items :: "batch list"

fun pool_Get :: "pool \<Rightarrow> batch option \<times> pool" where
  "pool_Get p =
     (case pool_items p of
        b # bs \<Rightarrow> (Some b, p\<lparr>pool_items := bs\<rparr>)
      | [] \<Rightarrow> (if pool_New p then Some [] else None, p))"

definition pool_Put :: "batch \<Rightarrow> pool \<Rightarrow> pool" where
  "pool_Put b p = p\<lparr>pool_items := b # pool_items p\<rparr>"

text \<open>
  Modelled from the spec: the struct \<open>config\<close>, whose declaration is not among the
  sources, with the fields that the control flow of the exporter reads. \<open>concurrency\<close> is
  a Go \<open>int\<close> (64 bits, read with \<open>sint\<close>). The fields that only shape the dial (address,
  credentials, compressor, service config, headers) are covered by the dial result, which
  is an input. \<open>requestFunc\<close> has the type \<open>retry.RequestFunc\<close>: it is given the function
  that makes one attempt and decides how often to call it. Here it is given the result of
  the n-th attempt for every n, and it gives back the error it returns and the number of
  attempts it made.
\<close>

record config =
  concurrency :: "64 word"
  reconnectionPeriod :: duration
  requestFunc :: "(nat \<Rightarrow> error option) \<Rightarrow> error option \<times> nat"

text \<open>
  Modelled from the spec: the request function of \<open>retry.Config{Enabled: false}\<close>, the
  default of \<open>newConfig\<close> (package \<open>exporter/retry\<close> is not among the sources). With
  retries disabled it makes one attempt and returns its result.
\<close>

definition retry_disabled :: "(nat \<Rightarrow> error option) \<Rightarrow> error option \<times> nat" where
  "retry_disabled attempt = (attempt 0, 1)"

text \<open>
  The struct \<open>Exporter\<close>. \<open>mu_locked\<close> is the state of \<open>mu\<close> between two operations: the
  write lock is held only when a panic unwound past its \<open>Unlock\<close>. \<open>startOnce\<close> is the done flag of the
  \<open>sync.Once\<close>, \<open>wait\<close> the counter of the \<open>sync.WaitGroup\<close>. The last six fields record
  what the exporter did to the outside: whether the reconnector goroutine runs, the
  batches sent in \<open>Export\<close> calls, the connections closed, the errors given to
  \<open>otel.Handle\<close> and the two counters of \<open>metrics.BatchProcessCounter\<close>.
\<close>

record exporter =
  mu_locked :: bool
  started :: bool
  logExporter :: "conn option"
  grpcClientConn :: "conn option"
  lastConnectErrPtr :: "error option"
  startOnce :: bool
  stopCh :: "bool chan option"
  disconnectedCh :: "bool chan option"
  backgroundConnectionDoneCh :: "bool chan option"
  c :: config
  logsBatchCh :: "batch chan option"
  logsBatchPool :: pool
  wait :: nat
  reconnector :: bool
  export_calls :: "batch list"
  closed_conns :: "conn list"
  handled :: "error list"
  async_success :: nat
  async_failed :: nat

text \<open>How a run of an operation ends, and in which state.\<close>

datatype 'r outcome =
    Returned 'r exporter
  | Panicked panic_value exporter
  | Blocked exporter

text \<open>
  What the environment decides during a run: the result of \<open>grpc.DialContext\<close>, the
  collector's answer to the n-th \<open>Export\<close> attempt for a batch, whether the \<open>select\<close> of
  \<open>exportLogsInternal\<close> takes its \<open>ctx.Done()\<close> case when \<open>stopCh\<close> is closed and the
  watcher goroutine has cancelled the context already, the result of closing the
  connection, and which case of the last \<open>select\<close> of \<open>Shutdown\<close> becomes ready first.
\<close>

datatype shutdown_event = BackgroundDone | CtxDeadline | CtxCancel

record env =
  dial :: "error + conn"
  collector :: "batch \<Rightarrow> nat \<Rightarrow> error option"
  ctx_done_first :: bool
  conn_close :: "error option"
  shutdown_select :: shutdown_event

definition NewUnstartedExporter :: "config \<Rightarrow> exporter" where
  "NewUnstartedExporter cf =
     \<lparr>mu_locked = False, started = False, logExporter = None, grpcClientConn = None,
      lastConnectErrPtr = None, startOnce = False, stopCh = None, disconnectedCh = None,
      backgroundConnectionDoneCh = None, c = cf, logsBatchCh = None,
      logsBatchPool = \<lparr>pool_New = False, pool_items = []\<rparr>, wait = 0,
      reconnector = False, export_calls = [], closed_conns = [], handled = [],
      async_success = 0, async_failed = 0\<rparr>"

definition lastConnectError :: "exporter \<Rightarrow> error option" where
  "lastConnectError e = lastConnectErrPtr e"

definition connected :: "exporter \<Rightarrow> bool" where
  "connected e = (lastConnectError e = None)"

definition saveLastConnectError :: "error option \<Rightarrow> exporter \<Rightarrow> exporter" where
  "saveLastConnectError err e = e\<lparr>lastConnectErrPtr := err\<rparr>"

definition setStateConnected :: "exporter \<Rightarrow> exporter" where
  "setStateConnected e = saveLastConnectError None e"

text \<open>
  \<open>setStateDisconnected\<close>: the \<open>select\<close> has a \<open>default\<close> case, so a send that would park
  the goroutine is skipped.
\<close>

definition setStateDisconnected :: "error option \<Rightarrow> exporter \<Rightarrow> unit outcome" where
  "setStateDisconnected err e =
     (let e1 = saveLastConnectError err e in
      case chan_send (disconnectedCh e1) True of
        Sent ch \<Rightarrow> Returned () (e1\<lparr>disconnectedCh := Some ch\<rparr>)
      | SendBlocks \<Rightarrow> Returned () e1
      | SendPanics \<Rightarrow> Panicked (RuntimeError go_send_on_closed) e1)"

subsection \<open>The batch pool and the intake\<close>

definition getBatchSlice :: "exporter \<Rightarrow> panic_value + batch \<times> exporter" where
  "getBatchSlice e =
     (case pool_Get (logsBatchPool e) of
        (None, p) \<Rightarrow> Inl (RuntimeError go_nil_deref)
      | (Some b, p) \<Rightarrow> Inr (take 0 b, e\<lparr>logsBatchPool := p\<rparr>))"

definition putBatchSlice :: "batch \<Rightarrow> exporter \<Rightarrow> exporter" where
  "putBatchSlice b e = e\<lparr>logsBatchPool := pool_Put b (logsBatchPool e)\<rparr>"

text \<open>The body of \<open>ExportLogs\<close>, before the deferred function runs.\<close>

definition ExportLogs_body :: "exporter \<Rightarrow> batch \<Rightarrow> error option outcome" where
  "ExportLogs_body e logs =
     (case getBatchSlice e of
        Inl pv \<Rightarrow> Panicked pv e
      | Inr (b, e1) \<Rightarrow>
          (case chan_send (logsBatchCh e1) (b @ logs) of
             SendPanics \<Rightarrow> Panicked (RuntimeError go_send_on_closed) e1
           | SendBlocks \<Rightarrow> Blocked e1
           | Sent ch \<Rightarrow> Returned None (e1\<lparr>logsBatchCh := Some ch\<rparr>)))"

text \<open>
  The deferred function of \<open>ExportLogs\<close>: no panic, nothing to do; a \<open>runtime.Error\<close> whose
  text is the one the function looks for is swallowed, and the call returns the zero value
  of its result (\<open>nil\<close>); every other panic is raised again.
\<close>

definition ExportLogs :: "exporter \<Rightarrow> batch \<Rightarrow> error option outcome" where
  "ExportLogs e logs =
     (case ExportLogs_body e logs of
        Panicked (RuntimeError m) e1 \<Rightarrow>
          (if m = ''send on closed channel logsBatchCh'' then Returned None e1
           else Panicked (RuntimeError m) e1)
      | Panicked (OtherPanic m) e1 \<Rightarrow> Panicked (OtherPanic m) e1
      | r \<Rightarrow> r)"

subsection \<open>Connecting\<close>

definition enableConnections :: "conn \<Rightarrow> exporter \<Rightarrow> error option outcome" where
  "enableConnections cc e =
     (if mu_locked e then Blocked e
      else if \<not> started e then Returned (Some errNotStarted) e
      else if grpcClientConn e = Some cc then Returned None e
      else
        let e1 = (case grpcClientConn e of
                    Some old \<Rightarrow> e\<lparr>closed_conns := closed_conns e @ [old]\<rparr>
                  | None \<Rightarrow> e)
        in Returned None (e1\<lparr>grpcClientConn := Some cc, logExporter := Some cc\<rparr>))"

definition connect :: "env \<Rightarrow> exporter \<Rightarrow> error option outcome" where
  "connect env e =
     (case dial env of
        Inl err \<Rightarrow> Returned (Some err) e
      | Inr cc \<Rightarrow> enableConnections cc e)"

subsection \<open>The export workers\<close>

text \<open>
  One attempt, the function handed to \<open>requestFunc\<close>: an answer whose status code is \<open>OK\<close>
  counts as success.
\<close>

definition export_attempt :: "error option \<Rightarrow> error option" where
  "export_attempt reply = (if code (status_Convert reply) = OK then None else reply)"

text \<open>
  \<open>exportLogsInternal\<close>. The context is derived from \<open>context.Background()\<close>, so it is done
  only after \<open>stopCh\<close> was closed and the watcher goroutine has cancelled it. The attempts
  run under the read lock; a call through a \<open>nil\<close> \<open>logExporter\<close> panics there, in a worker
  goroutine that recovers nothing.
\<close>

definition exportLogsInternal :: "env \<Rightarrow> exporter \<Rightarrow> batch \<Rightarrow> error option outcome" where
  "exportLogsInternal env e logs =
     (if length logs = 0 then Returned None e
      else if \<not> connected e then Returned (Some errDisconnected) e
      else if recv_ready_closed (stopCh e) then
        (if ctx_done_first env then Returned (Some errContextCanceled) e
         else Returned (Some errStopped) e)
      else if mu_locked e then Blocked e
      else
        (case requestFunc (c e) (\<lambda>n. export_attempt (collector env logs n)) of
           (err, n) \<Rightarrow>
             if 0 < n \<and> logExporter e = None
             then Panicked (RuntimeError go_nil_deref) e
             else
               let e1 = e\<lparr>export_calls := export_calls e @ replicate n logs\<rparr> in
               (case err of
                  None \<Rightarrow> Returned None e1
                | Some x \<Rightarrow>
                    (case setStateDisconnected err e1 of
                       Returned u e2 \<Rightarrow> Returned err e2
                     | Panicked pv e2 \<Rightarrow> Panicked pv e2
                     | Blocked e2 \<Rightarrow> Blocked e2))))"

text \<open>The body of the loop of \<open>exportBatches\<close>, for one batch taken from the channel.\<close>

definition exportBatches_body :: "env \<Rightarrow> batch \<Rightarrow> exporter \<Rightarrow> unit outcome" where
  "exportBatches_body env b e =
     (case exportLogsInternal env e b of
        Returned err e1 \<Rightarrow>
          Returned ()
            (putBatchSlice b
               (case err of
                  Some x \<Rightarrow> e1\<lparr>handled := handled e1 @ [x],
                               async_failed := async_failed e1 + length b\<rparr>
                | None \<Rightarrow> e1\<lparr>async_success := async_success e1 + length b\<rparr>))
      | Panicked pv e1 \<Rightarrow> Panicked pv e1
      | Blocked e1 \<Rightarrow> Blocked e1)"

text \<open>
  \<open>exportBatches\<close>: \<open>for batch := range e.logsBatchCh\<close>. The loop ends when the channel is
  closed and empty; on an open, empty channel (and on a \<open>nil\<close> one) the worker parks.
\<close>

function exportBatches :: "env \<Rightarrow> exporter \<Rightarrow> unit outcome" where
  "exportBatches env e =
     (case logsBatchCh e of
        None \<Rightarrow> Blocked e
      | Some q \<Rightarrow>
          (case chan_buf q of
             [] \<Rightarrow> if chan_closed q then Returned () e else Blocked e
           | b # rest \<Rightarrow>
               (case exportBatches_body env b (e\<lparr>logsBatchCh := Some (q\<lparr>chan_buf := rest\<rparr>)\<rparr>) of
                  Returned u e1 \<Rightarrow> exportBatches env e1
                | Panicked pv e1 \<Rightarrow> Panicked pv e1
                | Blocked e1 \<Rightarrow> Blocked e1)))"
  by pat_completeness auto

lemma setStateDisconnected_logsBatchCh:
  "setStateDisconnected err e = Returned u e1 \<Longrightarrow> logsBatchCh e1 = logsBatchCh e"
  by (auto simp: setStateDisconnected_def saveLastConnectError_def Let_def
      split: send_result.splits)

lemma exportLogsInternal_logsBatchCh:
  "exportLogsInternal env e b = Returned err e1 \<Longrightarrow> logsBatchCh e1 = logsBatchCh e"
  by (auto simp: exportLogsInternal_def Let_def
      split: if_splits prod.splits option.splits outcome.splits
      dest: setStateDisconnected_logsBatchCh)

lemma exportBatches_body_logsBatchCh:
  "exportBatches_body env b e = Returned u e1 \<Longrightarrow> logsBatchCh e1 = logsBatchCh e"
  by (auto simp: exportBatches_body_def putBatchSlice_def
      split: outcome.splits option.splits
      dest: exportLogsInternal_logsBatchCh)

termination exportBatches
proof (relation "measure (\<lambda>(env, e). case logsBatchCh e of
                            None \<Rightarrow> 0 | Some q \<Rightarrow> length (chan_buf q))")
  show "wf (measure (\<lambda>(env, e). case logsBatchCh e of
                       None \<Rightarrow> 0 | Some q \<Rightarrow> length (chan_buf q)))"
    by simp
next
  fix env :: env and e e1 :: exporter and q :: "batch chan" and b rest u
  assume q: "logsBatchCh e = Some q" and buf: "chan_buf q = b # rest"
    and run: "exportBatches_body env b (e\<lparr>logsBatchCh := Some (q\<lparr>chan_buf := rest\<rparr>)\<rparr>)
                = Returned u e1"
  from exportBatches_body_logsBatchCh [OF run]
  have "logsBatchCh e1 = Some (q\<lparr>chan_buf := rest\<rparr>)" by simp
  with q buf show "((env, e1), (env, e)) \<in> measure (\<lambda>(env, e). case logsBatchCh e of
                       None \<Rightarrow> 0 | Some q \<Rightarrow> length (chan_buf q))"
    by simp
qed

subsection \<open>The lifecycle\<close>

text \<open>
  \<open>make(chan T, n)\<close> panics when \<open>n\<close> is negative. The size is \<open>2*e.c.concurrency\<close>, computed
  on the 64-bit \<open>int\<close>. The limit of the allocator on the size is not part of the model.
\<close>

definition logsBatchCh_size :: "config \<Rightarrow> int" where
  "logsBatchCh_size cf = sint (2 * concurrency cf)"

text \<open>
  \<open>Start\<close>. The function given to \<open>startOnce.Do\<close> runs when the once has not fired. A panic
  inside it (the \<open>make\<close> of the intake channel) leaves the once fired and \<open>mu\<close>
  locked. The worker loop \<open>for i := 0; i < e.c.concurrency; i++\<close> adds one to \<open>wait\<close> for
  every worker it launches.
\<close>

definition Start :: "env \<Rightarrow> exporter \<Rightarrow> error option outcome" where
  "Start env e =
     (if startOnce e then Returned (Some errAlreadyStarted) e
      else if mu_locked e then Blocked e
      else
        let e1 = e\<lparr>started := True,
                   disconnectedCh := Some (make_chan 1),
                   stopCh := Some (make_chan 0),
                   backgroundConnectionDoneCh := Some (make_chan 0)\<rparr>
        in
        if logsBatchCh_size (c e) < 0
        then Panicked (RuntimeError go_makechan_size) (e1\<lparr>mu_locked := True, startOnce := True\<rparr>)
        else
          let e2 = e1\<lparr>logsBatchCh := Some (make_chan (nat (logsBatchCh_size (c e)))),
                      logsBatchPool := \<lparr>pool_New = True, pool_items = []\<rparr>\<rparr>
          in
          (case connect env e2 of
             Returned err e3 \<Rightarrow>
               (case (if err = None then Returned () (setStateConnected e3)
                      else setStateDisconnected err e3) of
                  Returned u e4 \<Rightarrow>
                    Returned None
                      (e4\<lparr>reconnector := True,
                          wait := wait e4 + nat (sint (concurrency (c e))),
                          startOnce := True\<rparr>)
                | Panicked pv e4 \<Rightarrow> Panicked pv (e4\<lparr>startOnce := True\<rparr>)
                | Blocked e4 \<Rightarrow> Blocked e4)
           | Panicked pv e3 \<Rightarrow> Panicked pv (e3\<lparr>startOnce := True\<rparr>)
           | Blocked e3 \<Rightarrow> Blocked e3))"

text \<open>
  \<open>e.wait.Wait()\<close>: with no worker running it returns at once; otherwise it returns when
  the workers have left their loops. The workers take the batches of the channel one
  after the other; their joint work is the loop \<open>exportBatches\<close> run once.
\<close>

definition wait_Wait :: "env \<Rightarrow> exporter \<Rightarrow> unit outcome" where
  "wait_Wait env e =
     (if wait e = 0 then Returned () e
      else
        (case exportBatches env e of
           Returned u e1 \<Rightarrow> Returned () (e1\<lparr>wait := 0\<rparr>)
         | Panicked pv e1 \<Rightarrow> Panicked pv e1
         | Blocked e1 \<Rightarrow> Blocked e1))"

text \<open>\<open>ctx.Err()\<close> once the context is done.\<close>

fun ctx_Err :: "shutdown_event \<Rightarrow> error option" where
  "ctx_Err BackgroundDone = None"
| "ctx_Err CtxDeadline = Some ctxDeadlineExceeded"
| "ctx_Err CtxCancel = Some ctxCanceled"

text \<open>
  \<open>Shutdown\<close>. \<open>closeStopCh\<close> is \<open>close\<close>. In the last \<open>select\<close> the receive from
  \<open>backgroundConnectionDoneCh\<close> completes when the reconnector goroutine sends its
  confirmation, after which that goroutine is gone.
\<close>

definition Shutdown :: "env \<Rightarrow> exporter \<Rightarrow> error option outcome" where
  "Shutdown env e =
     (if mu_locked e then Blocked e
      else
        let cc = grpcClientConn e in
        if \<not> started e then Returned None e
        else
          (case chan_close (logsBatchCh e) of
             ClosePanics m \<Rightarrow> Panicked (RuntimeError m) e
           | Closed q \<Rightarrow>
               (case wait_Wait env (e\<lparr>logsBatchCh := Some q\<rparr>) of
                  Panicked pv e1 \<Rightarrow> Panicked pv e1
                | Blocked e1 \<Rightarrow> Blocked e1
                | Returned u e1 \<Rightarrow>
                    (case (case cc of
                             Some k \<Rightarrow> (conn_close env, e1\<lparr>closed_conns := closed_conns e1 @ [k]\<rparr>)
                           | None \<Rightarrow> (None, e1)) of
                       (err, e2) \<Rightarrow>
                         if mu_locked e2 then Blocked e2
                         else
                           let e3 = e2\<lparr>started := False\<rparr> in
                           (case chan_close (stopCh e3) of
                              ClosePanics m \<Rightarrow> Panicked (RuntimeError m) e3
                            | Closed s \<Rightarrow>
                                let e4 = e3\<lparr>stopCh := Some s\<rparr> in
                                (case shutdown_select env of
                                   BackgroundDone \<Rightarrow> Returned err (e4\<lparr>reconnector := False\<rparr>)
                                 | ev \<Rightarrow> Returned (ctx_Err ev) e4))))))"

subsection \<open>Reading outcomes and states\<close>

fun is_Returned :: "'r outcome \<Rightarrow> bool" where
  "is_Returned (Returned r e) = True"
| "is_Returned (Panicked pv e) = False"
| "is_Returned (Blocked e) = False"

fun is_Blocked :: "'r outcome \<Rightarrow> bool" where
  "is_Blocked (Returned r e) = False"
| "is_Blocked (Panicked pv e) = False"
| "is_Blocked (Blocked e) = True"

fun panic_of :: "'r outcome \<Rightarrow> panic_value option" where
  "panic_of (Returned r e) = None"
| "panic_of (Panicked pv e) = Some pv"
| "panic_of (Blocked e) = None"

text \<open>The value a run returned, if it returned.\<close>

fun returned :: "'r outcome \<Rightarrow> 'r option" where
  "returned (Returned r e) = Some r"
| "returned (Panicked pv e) = None"
| "returned (Blocked e) = None"

text \<open>The state in which a run ended.\<close>

fun outcome_state :: "'r outcome \<Rightarrow> exporter" where
  "outcome_state (Returned r e) = e"
| "outcome_state (Panicked pv e) = e"
| "outcome_state (Blocked e) = e"

text \<open>The intake channel exists and is open, is closed, holds as many batches as it can.\<close>

definition intake_open :: "exporter \<Rightarrow> bool" where
  "intake_open e = (case logsBatchCh e of None \<Rightarrow> False | Some q \<Rightarrow> \<not> chan_closed q)"

definition intake_closed :: "exporter \<Rightarrow> bool" where
  "intake_closed e = (case logsBatchCh e of None \<Rightarrow> False | Some q \<Rightarrow> chan_closed q)"

definition intake_full :: "exporter \<Rightarrow> bool" where
  "intake_full e =
     (case logsBatchCh e of None \<Rightarrow> False | Some q \<Rightarrow> chan_cap q \<le> length (chan_buf q))"

definition intake_queue :: "exporter \<Rightarrow> batch list" where
  "intake_queue e = (case logsBatchCh e of None \<Rightarrow> [] | Some q \<Rightarrow> chan_buf q)"

text \<open>The pool can always hand out a slice: \<open>New\<close> is set.\<close>

definition pool_ready :: "exporter \<Rightarrow> bool" where
  "pool_ready e = pool_New (logsBatchPool e)"

text \<open>
  The disconnect signal is pending: the channel has the capacity 1 that \<open>Start\<close> gives it,
  and its one slot is taken.
\<close>

definition signal_pending :: "exporter \<Rightarrow> bool" where
  "signal_pending e =
     (case disconnectedCh e of
        None \<Rightarrow> False
      | Some d \<Rightarrow> \<not> chan_closed d \<and> chan_cap d = 1 \<and> length (chan_buf d) = 1)"

definition signal_clear :: "exporter \<Rightarrow> bool" where
  "signal_clear e =
     (case disconnectedCh e of
        None \<Rightarrow> False
      | Some d \<Rightarrow> \<not> chan_closed d \<and> chan_cap d = 1 \<and> chan_buf d = [])"

text \<open>
  What a worker relies on while it runs: \<open>mu\<close> is free, a connected exporter has its
  client, and the disconnect channel was not closed (nothing in the package closes it).
\<close>

definition worker_ok :: "exporter \<Rightarrow> bool" where
  "worker_ok e =
     (\<not> mu_locked e
      \<and> \<not> (lastConnectErrPtr e = None \<and> logExporter e = None)
      \<and> (case disconnectedCh e of None \<Rightarrow> True | Some d \<Rightarrow> \<not> chan_closed d))"

text \<open>A started exporter before \<open>Shutdown\<close>: what \<open>Start\<close> sets up and the operations keep.\<close>

definition running :: "exporter \<Rightarrow> bool" where
  "running e =
     (started e \<and> worker_ok e \<and> intake_open e \<and> pool_ready e
      \<and> (case stopCh e of None \<Rightarrow> False | Some s \<Rightarrow> \<not> chan_closed s))"

text \<open>What the work of a worker on one batch leaves as it was.\<close>

definition frame :: "exporter \<Rightarrow> exporter \<Rightarrow> bool" where
  "frame e e1 =
     (started e1 = started e \<and> stopCh e1 = stopCh e \<and> grpcClientConn e1 = grpcClientConn e
      \<and> closed_conns e1 = closed_conns e \<and> wait e1 = wait e
      \<and> pool_New (logsBatchPool e1) = pool_New (logsBatchPool e))"

subsection \<open>A concrete exporter\<close>

text \<open>
  One worker, retries disabled; a collector that is reached and accepts every batch, and
  one that cannot be dialled.
\<close>

definition example_config :: config where
  "example_config = \<lparr>concurrency = 1, reconnectionPeriod = 0, requestFunc = retry_disabled\<rparr>"

definition reachable_env :: env where
  "reachable_env =
     \<lparr>dial = Inr 7, collector = (\<lambda>b n. None), ctx_done_first = False,
      conn_close = None, shutdown_select = BackgroundDone\<rparr>"

definition unreachable_env :: env where
  "unreachable_env =
     \<lparr>dial = Inl (OtherError ''connection refused''), collector = (\<lambda>b n. None),
      ctx_done_first = False, conn_close = None, shutdown_select = CtxDeadline\<rparr>"

definition started_example :: exporter where
  "started_example = outcome_state (Start reachable_env (NewUnstartedExporter example_config))"

definition disconnected_example :: exporter where
  "disconnected_example =
     outcome_state (Start unreachable_env (NewUnstartedExporter example_config))"

definition full_example :: exporter where
  "full_example =
     outcome_state (ExportLogs (outcome_state (ExportLogs started_example [1])) [2])"

definition stopped_example :: exporter where
  "stopped_example = outcome_state (Shutdown reachable_env started_example)"

section \<open>Properties\<close>

lemmas example_defs =
  started_example_def disconnected_example_def full_example_def stopped_example_def
  example_config_def reachable_env_def unreachable_env_def NewUnstartedExporter_def
  Start_def Shutdown_def ExportLogs_def ExportLogs_body_def getBatchSlice_def connect_def
  enableConnections_def setStateConnected_def setStateDisconnected_def
  saveLastConnectError_def make_chan_def logsBatchCh_size_def wait_Wait_def
  exportBatches_body_def exportLogsInternal_def putBatchSlice_def pool_Put_def connected_def
  lastConnectError_def retry_disabled_def export_attempt_def go_send_on_closed_def
  go_nil_deref_def go_makechan_size_def Let_def intake_open_def intake_closed_def
  intake_full_def intake_queue_def pool_ready_def signal_pending_def signal_clear_def
  worker_ok_def running_def

subsection \<open>The retry classifier\<close>

lemma throttleDelay_loop_attached:
  "throttleDelay_loop ds = (case attached_delay ds of Some d \<Rightarrow> d | None \<Rightarrow> 0)"
  by (induction ds rule: throttleDelay_loop.induct) simp_all

text \<open>
  C3. For every error (also \<open>nil\<close>), \<open>retryable\<close> answers true exactly when the status
  code of the error is one of Canceled, DeadlineExceeded, ResourceExhausted, Aborted,
  OutOfRange, Unavailable, DataLoss; then the wait is the delay of the attached
  \<open>RetryInfo\<close> detail (the first one) when there is one and 0 when there is none; for every
  other code the answer is false with wait 0.
\<close>

theorem retryable_classification:
  "retryable e =
     (if code (status_Convert e) \<in> transient_codes
      then (True, case attached_delay (details (status_Convert e)) of
                    Some d \<Rightarrow> d | None \<Rightarrow> 0)
      else (False, 0))"
  by (cases "code (status_Convert e)")
     (simp_all add: retryable_def transient_codes_def throttleDelay_def
        throttleDelay_loop_attached del: attached_delay.simps)

subsection \<open>What Start sets up\<close>


text \<open>The intake channel that \<open>Start\<close> makes has room for twice \<open>concurrency\<close> batches.\<close>

lemma Start_intake_capacity:
  assumes "0 \<le> logsBatchCh_size cf"
  shows "map_option chan_cap (logsBatchCh (outcome_state (Start env (NewUnstartedExporter cf))))
           = Some (nat (sint (2 * concurrency cf)))"
  using assms
  by (cases "dial env")
     (simp_all add: Start_def NewUnstartedExporter_def connect_def enableConnections_def
        setStateConnected_def setStateDisconnected_def saveLastConnectError_def make_chan_def
        logsBatchCh_size_def Let_def)

text \<open>A negative size makes the first \<open>Start\<close> panic, with the once fired and \<open>mu\<close> held.\<close>

lemma Start_negative_size:
  assumes "logsBatchCh_size cf < 0"
  shows "panic_of (Start env (NewUnstartedExporter cf)) = Some (RuntimeError go_makechan_size)
       \<and> startOnce (outcome_state (Start env (NewUnstartedExporter cf)))
       \<and> mu_locked (outcome_state (Start env (NewUnstartedExporter cf)))"
  using assms by (simp add: Start_def NewUnstartedExporter_def Let_def)

subsection \<open>The intake\<close>

text \<open>With room in the queue the batch is appended and the caller gets \<open>nil\<close>.\<close>

lemma ExportLogs_enqueues:
  assumes "running e" and "\<not> intake_full e"
  shows "returned (ExportLogs e logs) = Some None
       \<and> intake_queue (outcome_state (ExportLogs e logs)) = intake_queue e @ [logs]
       \<and> running (outcome_state (ExportLogs e logs))"
  using assms
  by (auto simp: running_def worker_ok_def intake_open_def intake_full_def pool_ready_def
        intake_queue_def ExportLogs_def ExportLogs_body_def getBatchSlice_def
      split: option.splits list.splits)





text \<open>
  C2, as the code has it. While the exporter runs, a call to \<open>ExportLogs\<close> that finds the
  intake queue full parks the caller on the send (until a worker takes a batch out): the
  queue is left as it is, nothing is dropped and no full-queue result is returned.
\<close>

theorem ExportLogs_full_queue_blocks:
  assumes "running e" and "intake_full e"
  shows "is_Blocked (ExportLogs e logs)
       \<and> intake_queue (outcome_state (ExportLogs e logs)) = intake_queue e"
  using assms
  by (auto simp: running_def intake_open_def intake_full_def pool_ready_def intake_queue_def
        ExportLogs_def ExportLogs_body_def getBatchSlice_def
      split: option.splits list.splits)

theorem ExportLogs_full_queue_blocks_witness:
  "running full_example \<and> intake_full full_example
   \<and> is_Blocked (ExportLogs full_example [3])
   \<and> intake_queue (outcome_state (ExportLogs full_example [3])) = [[1], [2]]"
proof -
  have r: "running full_example" by (simp add: example_defs)
  have f: "intake_full full_example" by (simp add: example_defs)
  have q: "intake_queue full_example = [[1], [2]]" by (simp add: example_defs)
  from ExportLogs_full_queue_blocks [OF r f, of "[3]"] r f q show ?thesis by simp
qed

text \<open>
  The claim C2 as the specification words it fails: the example exporter has one worker
  and a queue of capacity 2; with two batches queued the third call does not return.
\<close>

theorem ExportLogs_full_queue_counterexample:
  "running full_example \<and> intake_full full_example
   \<and> is_Blocked (ExportLogs full_example [3])
   \<and> returned (ExportLogs full_example [3]) = None"
  by (simp add: example_defs)

text \<open>
  C9. On an exporter that was never started \<open>ExportLogs\<close> panics with the nil pointer
  dereference of \<open>getBatchSlice\<close> (the pool has no \<open>New\<close> and holds nothing), whatever the
  configuration and the batch; the deferred function raises the panic again, and no
  \<open>not started\<close> error is returned.
\<close>

theorem ExportLogs_unstarted_panics:
  "ExportLogs (NewUnstartedExporter cf) logs
     = Panicked (RuntimeError go_nil_deref) (NewUnstartedExporter cf)"
  by (simp add: ExportLogs_def ExportLogs_body_def getBatchSlice_def NewUnstartedExporter_def
      go_nil_deref_def)

subsection \<open>Start\<close>




subsection \<open>The health state\<close>

text \<open>
  C10. \<open>setStateDisconnected\<close> never parks its caller, in any state of the exporter. The
  disconnect channel that \<open>Start\<close> makes has capacity 1. When a signal is pending the new
  one is dropped: the call returns with nothing changed but the recorded error. When none
  is pending the call returns with the signal pending.
\<close>

theorem setStateDisconnected_never_blocks:
  "\<not> is_Blocked (setStateDisconnected err e)
   \<and> (signal_pending e \<longrightarrow>
        setStateDisconnected err e = Returned () (saveLastConnectError err e))
   \<and> (signal_clear e \<longrightarrow>
        returned (setStateDisconnected err e) = Some ()
        \<and> signal_pending (outcome_state (setStateDisconnected err e)))
   \<and> map_option chan_cap (disconnectedCh (outcome_state (Start env (NewUnstartedExporter cf))))
       = Some 1"
proof -
  have never: "\<not> is_Blocked (setStateDisconnected err e)"
    by (cases "disconnectedCh e")
       (simp_all add: setStateDisconnected_def saveLastConnectError_def Let_def)
  have dropped: "signal_pending e \<longrightarrow>
        setStateDisconnected err e = Returned () (saveLastConnectError err e)"
    by (cases "disconnectedCh e")
       (simp_all add: signal_pending_def setStateDisconnected_def saveLastConnectError_def Let_def)
  have armed: "signal_clear e \<longrightarrow>
        returned (setStateDisconnected err e) = Some ()
        \<and> signal_pending (outcome_state (setStateDisconnected err e))"
    by (cases "disconnectedCh e")
       (simp_all add: signal_clear_def signal_pending_def setStateDisconnected_def
          saveLastConnectError_def Let_def)
  have cap1: "map_option chan_cap
             (disconnectedCh (outcome_state (Start env (NewUnstartedExporter cf)))) = Some 1"
    by (cases "dial env")
       (simp_all add: Start_def NewUnstartedExporter_def connect_def enableConnections_def
          setStateConnected_def setStateDisconnected_def saveLastConnectError_def make_chan_def
          Let_def)
  from never dropped armed cap1 show ?thesis by blast
qed

theorem setStateDisconnected_never_blocks_witness:
  "signal_pending disconnected_example
   \<and> setStateDisconnected (Some errStopped) disconnected_example
       = Returned () (saveLastConnectError (Some errStopped) disconnected_example)
   \<and> signal_clear started_example
   \<and> returned (setStateDisconnected (Some errStopped) started_example) = Some ()
   \<and> signal_pending (outcome_state (setStateDisconnected (Some errStopped) started_example))"
proof -
  have p: "signal_pending disconnected_example" by (simp add: example_defs)
  have q: "signal_clear started_example" by (simp add: example_defs)
  from setStateDisconnected_never_blocks [of "Some errStopped" disconnected_example]
    setStateDisconnected_never_blocks [of "Some errStopped" started_example] p q
  show ?thesis by blast
qed

subsection \<open>The export workers\<close>

text \<open>
  C8. For the empty batch \<open>exportLogsInternal\<close> returns \<open>nil\<close> and leaves the exporter as it
  was, in every state (connected or not, stopped or not) and whatever the environment
  would answer: the health state plays no part and no \<open>Export\<close> call is recorded.
\<close>

theorem exportLogsInternal_empty:
  "exportLogsInternal env e [] = Returned None e"
  by (simp add: exportLogsInternal_def)

text \<open>
  C7. A worker that takes a non-empty batch while the exporter is disconnected gets
  \<open>errDisconnected\<close> from \<open>exportLogsInternal\<close> with the exporter unchanged, and its loop
  body ends with the list of \<open>Export\<close> calls as it was. Whatever \<open>exportLogsInternal\<close>
  returns (success or an error), the loop body puts the batch back into the pool.
\<close>

theorem worker_disconnected_fails_fast:
  "(logs \<noteq> [] \<and> \<not> connected e \<longrightarrow>
      exportLogsInternal env e logs = Returned (Some errDisconnected) e
      \<and> export_calls (outcome_state (exportBatches_body env logs e)) = export_calls e)
   \<and> (is_Returned (exportLogsInternal env e logs) \<longrightarrow>
      is_Returned (exportBatches_body env logs e)
      \<and> hd (pool_items (logsBatchPool (outcome_state (exportBatches_body env logs e)))) = logs)"
proof -
  have fails: "logs \<noteq> [] \<and> \<not> connected e \<longrightarrow>
      exportLogsInternal env e logs = Returned (Some errDisconnected) e
      \<and> export_calls (outcome_state (exportBatches_body env logs e)) = export_calls e"
    by (simp add: exportLogsInternal_def exportBatches_body_def putBatchSlice_def)
  have pooled: "is_Returned (exportLogsInternal env e logs) \<longrightarrow>
      is_Returned (exportBatches_body env logs e)
      \<and> hd (pool_items (logsBatchPool (outcome_state (exportBatches_body env logs e)))) = logs"
    by (cases "exportLogsInternal env e logs")
       (simp_all add: exportBatches_body_def putBatchSlice_def pool_Put_def)
  from fails pooled show ?thesis by blast
qed

theorem worker_disconnected_fails_fast_witness:
  "[1, 2] \<noteq> ([] :: batch) \<and> \<not> connected disconnected_example
   \<and> exportLogsInternal unreachable_env disconnected_example [1, 2]
       = Returned (Some errDisconnected) disconnected_example
   \<and> export_calls (outcome_state (exportBatches_body unreachable_env [1, 2] disconnected_example))
       = []
   \<and> is_Returned (exportBatches_body unreachable_env [1, 2] disconnected_example)
   \<and> pool_items (logsBatchPool (outcome_state
        (exportBatches_body unreachable_env [1, 2] disconnected_example))) = [[1, 2]]"
proof -
  have d: "\<not> connected disconnected_example" by (simp add: example_defs)
  have x: "export_calls disconnected_example = []" by (simp add: example_defs)
  have p: "pool_items (logsBatchPool (outcome_state
        (exportBatches_body unreachable_env [1, 2] disconnected_example))) = [[1, 2]]"
    by (simp add: example_defs)
  from worker_disconnected_fails_fast [of "[1, 2]" disconnected_example unreachable_env] d x p
  show ?thesis by simp
qed

subsection \<open>The workers keep the exporter in order\<close>

lemma setStateDisconnected_worker:
  assumes "worker_ok e" and "err \<noteq> None"
  shows "\<exists>e1. setStateDisconnected err e = Returned () e1 \<and> worker_ok e1 \<and> frame e e1
           \<and> logsBatchCh e1 = logsBatchCh e"
  using assms
  by (cases "disconnectedCh e")
     (auto simp: setStateDisconnected_def saveLastConnectError_def worker_ok_def frame_def Let_def)

lemma exportLogsInternal_worker:
  assumes "worker_ok e"
  shows "\<exists>err e1. exportLogsInternal env e b = Returned err e1 \<and> worker_ok e1 \<and> frame e e1
           \<and> logsBatchCh e1 = logsBatchCh e"
proof -
  obtain err n where rf: "requestFunc (c e) (\<lambda>n. export_attempt (collector env b n)) = (err, n)"
    by (cases "requestFunc (c e) (\<lambda>n. export_attempt (collector env b n))")
  let ?e1 = "e\<lparr>export_calls := export_calls e @ replicate n b\<rparr>"
  have ok1: "worker_ok ?e1" using assms by (simp add: worker_ok_def)
  have fr1: "frame e ?e1" by (simp add: frame_def)
  show ?thesis
  proof (cases err)
    case None
    with rf assms ok1 fr1 show ?thesis
      by (auto simp: exportLogsInternal_def Let_def worker_ok_def frame_def connected_def
          lastConnectError_def)
  next
    case (Some x)
    then have "err \<noteq> None" by simp
    from setStateDisconnected_worker [OF ok1 this]
    obtain e2 where s: "setStateDisconnected err ?e1 = Returned () e2"
      and ok2: "worker_ok e2" and fr2: "frame ?e1 e2" and q2: "logsBatchCh e2 = logsBatchCh ?e1"
      by blast
    from fr1 fr2 have fr: "frame e e2" by (simp add: frame_def)
    from rf Some s ok2 fr q2 assms show ?thesis
      by (auto simp: exportLogsInternal_def Let_def worker_ok_def frame_def connected_def
          lastConnectError_def)
  qed
qed

lemma exportBatches_body_worker:
  assumes "worker_ok e"
  shows "\<exists>e1. exportBatches_body env b e = Returned () e1 \<and> worker_ok e1 \<and> frame e e1
           \<and> logsBatchCh e1 = logsBatchCh e"
proof -
  from exportLogsInternal_worker [OF assms, of env b]
  obtain err e1 where r: "exportLogsInternal env e b = Returned err e1"
    and ok: "worker_ok e1" and fr: "frame e e1" and q: "logsBatchCh e1 = logsBatchCh e"
    by blast
  then show ?thesis
    by (cases err)
       (simp_all add: exportBatches_body_def putBatchSlice_def pool_Put_def worker_ok_def
          frame_def)
qed

text \<open>The work on one batch keeps a running exporter running.\<close>

lemma exportBatches_body_running:
  assumes "running e"
  shows "\<exists>e1. exportBatches_body env b e = Returned () e1 \<and> running e1"
proof -
  from assms have "worker_ok e" by (simp add: running_def)
  from exportBatches_body_worker [OF this, of env b]
  obtain e1 where "exportBatches_body env b e = Returned () e1" "worker_ok e1" "frame e e1"
    "logsBatchCh e1 = logsBatchCh e"
    by blast
  with assms show ?thesis
    by (simp add: running_def frame_def intake_open_def pool_ready_def)
qed

declare exportBatches.simps [simp del]

text \<open>
  Once the intake channel is closed the worker loop takes every queued batch and ends:
  it neither panics nor parks.
\<close>

lemma exportBatches_drains:
  assumes "worker_ok e" and "logsBatchCh e = Some q" and "chan_closed q"
  shows "\<exists>e1. exportBatches env e = Returned () e1 \<and> worker_ok e1 \<and> frame e e1
           \<and> logsBatchCh e1 = Some (q\<lparr>chan_buf := []\<rparr>)"
  using assms
proof (induction "chan_buf q" arbitrary: e q)
  case Nil
  then have "q\<lparr>chan_buf := []\<rparr> = q" by simp
  with Nil show ?case
    by (subst exportBatches.simps) (simp add: frame_def)
next
  case (Cons b rest)
  let ?q = "q\<lparr>chan_buf := rest\<rparr>"
  let ?e = "e\<lparr>logsBatchCh := Some ?q\<rparr>"
  have ok: "worker_ok ?e" using Cons.prems by (simp add: worker_ok_def)
  from exportBatches_body_worker [OF ok, of env b]
  obtain e1 where r: "exportBatches_body env b ?e = Returned () e1"
    and ok1: "worker_ok e1" and fr1: "frame ?e e1" and q1: "logsBatchCh e1 = Some ?q"
    by auto
  have "rest = chan_buf ?q" by simp
  from Cons.hyps(1) [OF this ok1 q1] Cons.prems(3)
  obtain e2 where r2: "exportBatches env e1 = Returned () e2"
    and ok2: "worker_ok e2" and fr2: "frame e1 e2"
    and q2: "logsBatchCh e2 = Some (?q\<lparr>chan_buf := []\<rparr>)"
    by auto
  from fr1 fr2 have fr: "frame e e2" by (simp add: frame_def)
  from Cons.hyps(2) [symmetric] Cons.prems(2) r r2 ok2 fr q2 show ?case
    by (subst exportBatches.simps) simp
qed

subsection \<open>Shutdown\<close>

text \<open>
  C6. On an exporter that is not started \<open>Shutdown\<close> changes nothing and returns \<open>nil\<close>.
  On a running exporter, when the deadline of the caller's context is the first case of
  the last \<open>select\<close> to become ready, \<open>Shutdown\<close> returns \<open>context.DeadlineExceeded\<close>, and
  by then it has closed the intake channel, waited for the workers (which have emptied
  the queue when there is a worker), closed the connection it read at the start, cleared
  \<open>started\<close> and closed \<open>stopCh\<close>.
\<close>

theorem Shutdown_deadline:
  "(\<not> started e \<and> \<not> mu_locked e \<longrightarrow> Shutdown env e = Returned None e)
   \<and> (running e \<and> shutdown_select env = CtxDeadline \<longrightarrow>
        returned (Shutdown env e) = Some (Some ctxDeadlineExceeded)
        \<and> intake_closed (outcome_state (Shutdown env e))
        \<and> (0 < wait e \<longrightarrow> intake_queue (outcome_state (Shutdown env e)) = [])
        \<and> wait (outcome_state (Shutdown env e)) = 0
        \<and> (\<forall>k. grpcClientConn e = Some k \<longrightarrow>
              closed_conns (outcome_state (Shutdown env e)) = closed_conns e @ [k])
        \<and> \<not> started (outcome_state (Shutdown env e))
        \<and> recv_ready_closed (stopCh (outcome_state (Shutdown env e))))"
proof -
  have idle: "\<not> started e \<and> \<not> mu_locked e \<longrightarrow> Shutdown env e = Returned None e"
    by (simp add: Shutdown_def)
  have late: "returned (Shutdown env e) = Some (Some ctxDeadlineExceeded)
        \<and> intake_closed (outcome_state (Shutdown env e))
        \<and> (0 < wait e \<longrightarrow> intake_queue (outcome_state (Shutdown env e)) = [])
        \<and> wait (outcome_state (Shutdown env e)) = 0
        \<and> (\<forall>k. grpcClientConn e = Some k \<longrightarrow>
              closed_conns (outcome_state (Shutdown env e)) = closed_conns e @ [k])
        \<and> \<not> started (outcome_state (Shutdown env e))
        \<and> recv_ready_closed (stopCh (outcome_state (Shutdown env e)))"
    if run: "running e" and ev: "shutdown_select env = CtxDeadline"
  proof -
    from run obtain q s where q: "logsBatchCh e = Some q" "\<not> chan_closed q"
      and s: "stopCh e = Some s" "\<not> chan_closed s"
      and ok: "worker_ok e" and st: "started e"
      by (auto simp: running_def intake_open_def split: option.splits)
    let ?q = "q\<lparr>chan_closed := True\<rparr>"
    let ?e = "e\<lparr>logsBatchCh := Some ?q\<rparr>"
    have ok': "worker_ok ?e" using ok by (simp add: worker_ok_def)
    have "\<exists>e1. wait_Wait env ?e = Returned () e1 \<and> worker_ok e1
            \<and> stopCh e1 = stopCh e \<and> closed_conns e1 = closed_conns e
            \<and> wait e1 = 0 \<and> intake_closed e1 \<and> (0 < wait e \<longrightarrow> intake_queue e1 = [])"
    proof (cases "wait e = 0")
      case True
      with ok' show ?thesis
        by (simp add: wait_Wait_def intake_closed_def)
    next
      case False
      from exportBatches_drains [OF ok', of ?q env]
      obtain e1 where "exportBatches env ?e = Returned () e1" "worker_ok e1" "frame ?e e1"
        "logsBatchCh e1 = Some (?q\<lparr>chan_buf := []\<rparr>)"
        by auto
      with False show ?thesis
        by (simp add: wait_Wait_def frame_def intake_closed_def intake_queue_def worker_ok_def)
    qed
    then obtain e1 where w: "wait_Wait env ?e = Returned () e1" and ok1: "worker_ok e1"
      and fr: "stopCh e1 = stopCh e" "closed_conns e1 = closed_conns e"
      and w0: "wait e1 = 0" and ic: "intake_closed e1"
      and iq: "0 < wait e \<longrightarrow> intake_queue e1 = []"
      by (elim exE conjE)
    from ok1 have mu: "\<not> mu_locked e1" "\<not> mu_locked e" using ok by (simp_all add: worker_ok_def)
    from fr s have f: "stopCh e1 = Some s" "closed_conns e1 = closed_conns e"
      by simp_all
    show ?thesis
      using q s st w mu f w0 ic iq ev
      by (cases "grpcClientConn e")
         (simp_all add: Shutdown_def Let_def intake_closed_def intake_queue_def)
  qed
  from idle late show ?thesis by blast
qed

theorem Shutdown_deadline_witness:
  "\<not> started (NewUnstartedExporter example_config)
   \<and> \<not> mu_locked (NewUnstartedExporter example_config)
   \<and> Shutdown unreachable_env (NewUnstartedExporter example_config)
       = Returned None (NewUnstartedExporter example_config)
   \<and> running full_example \<and> shutdown_select unreachable_env = CtxDeadline
   \<and> 0 < wait full_example
   \<and> grpcClientConn full_example = Some 7
   \<and> returned (Shutdown unreachable_env full_example) = Some (Some ctxDeadlineExceeded)
   \<and> intake_closed (outcome_state (Shutdown unreachable_env full_example))
   \<and> intake_queue (outcome_state (Shutdown unreachable_env full_example)) = []
   \<and> closed_conns (outcome_state (Shutdown unreachable_env full_example)) = [7]
   \<and> \<not> started (outcome_state (Shutdown unreachable_env full_example))"
proof -
  have n: "\<not> started (NewUnstartedExporter example_config)"
    "\<not> mu_locked (NewUnstartedExporter example_config)"
    by (simp_all add: NewUnstartedExporter_def)
  have r: "running full_example" by (simp add: example_defs)
  have s: "shutdown_select unreachable_env = CtxDeadline" by (simp add: unreachable_env_def)
  have w: "0 < wait full_example" by (simp add: example_defs)
  have k: "grpcClientConn full_example = Some 7" by (simp add: example_defs)
  have cl: "closed_conns full_example = []" by (simp add: example_defs)
  from Shutdown_deadline [of "NewUnstartedExporter example_config" unreachable_env]
    Shutdown_deadline [of full_example unreachable_env] n r s w k cl
  show ?thesis by simp
qed

text \<open>
  When the confirmation of the reconnector comes first, \<open>Shutdown\<close> returns what closing
  the connection returned.
\<close>

lemma Shutdown_confirmed_example:
  "Shutdown reachable_env started_example = Returned None stopped_example"
  by (simp add: example_defs exportBatches.simps)

end
